theory Spec2Isabelle
  imports Main "HOL-Library.Word"
begin

section \<open>The data model of client\_connection.h\<close>

text \<open>
  The header declares the client side of a connection to memcached: the wire unit
  \<open>Frame\<close>, the exception class \<open>ConnectionError\<close>, the abstract class
  \<open>MemcachedConnection\<close> and the registry \<open>ConnectionMap\<close>. Member functions with a
  body in the header are translated from that body. The few member functions that are
  needed here and that the header only declares are modelled from the specification, and
  say so.
\<close>

datatype Protocol = Memcached | Greenstack

type_synonym uint8_t = "8 word"
type_synonym in_port_t = "16 word"
type_synonym sa_family_t = "16 word"

subsection \<open>Frame\<close>

record Frame =
  payload :: "uint8_t list"

text \<open>
  \<open>std::vector::resize(n)\<close>: the first \<open>n\<close> elements are kept, and a shorter vector is
  filled up with value-initialised (zero) elements.
\<close>

definition resize :: "nat \<Rightarrow> uint8_t list \<Rightarrow> uint8_t list" where
  "resize n xs = take n xs @ replicate (n - length xs) 0"

text \<open>\<open>void Frame::reset() { payload.resize(0); }\<close>\<close>

definition reset :: "Frame \<Rightarrow> Frame" where
  "reset f = f\<lparr>payload := resize 0 (payload f)\<rparr>"

subsection \<open>Exceptions\<close>

text \<open>
  An exception class is the root \<open>std::exception\<close> or a class declared with one public
  base, \<open>class name : public base\<close>. A class is identified by its name together with its
  chain of bases.
\<close>

datatype exn_class = StdException | Derived string exn_class

definition std_logic_error :: exn_class where
  "std_logic_error = Derived ''std::logic_error'' StdException"

definition std_invalid_argument :: exn_class where
  "std_invalid_argument = Derived ''std::invalid_argument'' std_logic_error"

definition std_runtime_error :: exn_class where
  "std_runtime_error = Derived ''std::runtime_error'' StdException"

text \<open>\<open>class ConnectionError : public std::runtime_error\<close>\<close>

definition ConnectionError :: exn_class where
  "ConnectionError = Derived ''ConnectionError'' std_runtime_error"

text \<open>The class itself followed by its public bases, nearest first.\<close>

primrec bases :: "exn_class \<Rightarrow> exn_class list" where
  "bases StdException = [StdException]"
| "bases (Derived name base) = Derived name base # bases base"

text \<open>
  A handler \<open>catch (H&)\<close> matches a thrown object of class \<open>c\<close> when \<open>H\<close> is \<open>c\<close> or
  a public base of \<open>c\<close>.
\<close>

definition derives_from :: "exn_class \<Rightarrow> exn_class \<Rightarrow> bool" where
  "derives_from c h = (h \<in> set (bases c))"

text \<open>
  The handlers of a try block are tried in the order in which they are written; the
  result is the position of the handler that is entered, or \<open>None\<close> when the exception
  leaves the try block.
\<close>

fun first_handler :: "exn_class list \<Rightarrow> exn_class \<Rightarrow> nat option" where
  "first_handler [] c = None"
| "first_handler (h # hs) c =
     (if derives_from c h then Some 0 else map_option Suc (first_handler hs c))"

text \<open>A thrown object: its dynamic class and the \<open>what_arg\<close> it was constructed with.\<close>

datatype exn = Exn (thrown_class: exn_class) (what: string)

subsection \<open>MemcachedConnection\<close>

text \<open>
  The data members of the class. The three transport handles \<open>context\<close>, \<open>bio\<close> and
  \<open>sock\<close> are opaque pointers and descriptors of the TLS library and the operating
  system; they are represented by the single field \<open>sock\<close>, which is \<open>None\<close> while there is
  no transport and otherwise holds the bytes written to the transport so far.
\<close>

record MemcachedConnection =
  host :: string
  port :: in_port_t
  family :: sa_family_t
  ssl :: bool
  protocol :: Protocol
  sock :: "uint8_t list option"
  synchronous :: bool
  saslMechanisms :: string

text \<open>
  A member function either returns normally or leaves by an exception, and in both cases
  the object is left in some state: the result of a call is the pair of \<open>Inr\<close> the
  returned value or \<open>Inl\<close> the thrown exception, and the connection after the call.
\<close>

type_synonym 'a outcome = "(exn + 'a) \<times> MemcachedConnection"

definition getPort :: "MemcachedConnection \<Rightarrow> in_port_t" where
  "getPort c = port c"

definition getFamily :: "MemcachedConnection \<Rightarrow> sa_family_t" where
  "getFamily c = family c"

definition isSsl :: "MemcachedConnection \<Rightarrow> bool" where
  "isSsl c = ssl c"

definition getProtocol :: "MemcachedConnection \<Rightarrow> Protocol" where
  "getProtocol c = protocol c"

definition isSynchronous :: "MemcachedConnection \<Rightarrow> bool" where
  "isSynchronous c = synchronous c"

text \<open>
  \<^verbatim>\<open>
  virtual void setSynchronous(bool enable) {
      if (!enable) {
          std::runtime_error("MemcachedConnection::setSynchronous: Not implemented");
      }
  }
  \<close>
  The expression statement constructs a temporary exception object and destroys it; there
  is no \<open>throw\<close>. No member is assigned.
\<close>

definition setSynchronous :: "bool \<Rightarrow> MemcachedConnection \<Rightarrow> unit outcome" where
  "setSynchronous enable c =
     (if \<not> enable
      then (let discarded =
                  Exn std_runtime_error
                    ''MemcachedConnection::setSynchronous: Not implemented''
            in (Inr (), c))
      else (Inr (), c))"

text \<open>\<open>const std::string& getSaslMechanisms() const { return saslMechanisms; }\<close>\<close>

definition getSaslMechanisms :: "MemcachedConnection \<Rightarrow> string" where
  "getSaslMechanisms c = saslMechanisms c"

text \<open>
  \<^verbatim>\<open>
  virtual std::string ioctl_get(const std::string& key) {
      throw std::invalid_argument("Not implemented");
  }
  virtual void ioctl_set(const std::string& key, const std::string& value) {
      throw std::invalid_argument("Not implemented");
  }
  \<close>
\<close>

definition ioctl_get :: "string \<Rightarrow> MemcachedConnection \<Rightarrow> string outcome" where
  "ioctl_get key c = (Inl (Exn std_invalid_argument ''Not implemented''), c)"

definition ioctl_set :: "string \<Rightarrow> string \<Rightarrow> MemcachedConnection \<Rightarrow> unit outcome" where
  "ioctl_set key val c = (Inl (Exn std_invalid_argument ''Not implemented''), c)"

subsection \<open>Sending frames\<close>

text \<open>
  Modelled from the spec: \<open>sendFrame(frame)\<close>, which the header declares without a
  body. The whole payload is written to the transport; without a transport the call fails
  with a generic (transport) failure, a \<open>std::runtime_error\<close> by the class comment.
\<close>

definition sendFrame :: "Frame \<Rightarrow> MemcachedConnection \<Rightarrow> unit outcome" where
  "sendFrame frame c =
     (case sock c of
        None \<Rightarrow> (Inl (Exn std_runtime_error ''Failed to send data''), c)
      | Some wire \<Rightarrow> (Inr (), c\<lparr>sock := Some (wire @ payload frame)\<rparr>))"

text \<open>
  Modelled from the spec: \<open>sendPartialFrame(frame, length)\<close>, which the header declares
  without a body. Its comment in the header reads: upon success, the frame's payload is
  modified such that the sent bytes are deleted, and the length must be less than or
  equal to the size of the frame. Exactly \<open>length\<close> bytes, the leading ones, are
  transmitted; the frame, passed by reference, keeps the unsent remainder and is the
  returned value. A length beyond the size of the frame violates the precondition, which
  the spec files under the generic failures.
\<close>

definition sendPartialFrame :: "Frame \<Rightarrow> nat \<Rightarrow> MemcachedConnection \<Rightarrow> Frame outcome" where
  "sendPartialFrame frame len c =
     (if length (payload frame) < len
      then (Inl (Exn std_runtime_error ''Length exceeds the size of the frame''), c)
      else (case sendFrame (frame\<lparr>payload := take len (payload frame)\<rparr>) c of
              (Inl e, c') \<Rightarrow> (Inl e, c')
            | (Inr u, c') \<Rightarrow> (Inr (frame\<lparr>payload := drop len (payload frame)\<rparr>), c')))"

subsection \<open>ConnectionMap\<close>

text \<open>
  The only data member is \<open>std::vector<MemcachedConnection*> connections\<close>; the map owns
  the connections it points to, so the vector is modelled by the list of the connections
  themselves, in the order of the vector.
\<close>

record ConnectionMap =
  connections :: "MemcachedConnection list"

text \<open>
  The test of one held connection against the requested attributes: protocol, TLS flag
  and address family must be equal, and the port must be equal unless the requested
  port is 0, the default argument, which stands for an unspecified port.
\<close>

definition matches ::
  "Protocol \<Rightarrow> bool \<Rightarrow> sa_family_t \<Rightarrow> in_port_t \<Rightarrow> MemcachedConnection \<Rightarrow> bool" where
  "matches pr s f p c =
     (getProtocol c = pr \<and> isSsl c = s \<and> getFamily c = f \<and> (p = 0 \<or> getPort c = p))"

text \<open>
  Modelled from the spec: \<open>getConnection(protocol, ssl, family, port)\<close>, which the
  header declares without a body. A linear lookup over the held connections returns the
  first one that matches; when none matches the call fails with a generic lookup error,
  a \<open>std::runtime_error\<close> by the \<open>@throws\<close> line of the header.
\<close>

definition getConnection ::
  "Protocol \<Rightarrow> bool \<Rightarrow> sa_family_t \<Rightarrow> in_port_t \<Rightarrow> ConnectionMap
     \<Rightarrow> exn + MemcachedConnection" where
  "getConnection pr s f p m =
     (case find (matches pr s f p) (connections m) of
        None \<Rightarrow> Inl (Exn std_runtime_error ''No connection matching the request'')
      | Some c \<Rightarrow> Inr c)"

subsection \<open>Example values\<close>

text \<open>
  Two unconnected connections to the binary protocol on IPv4 (\<open>AF_INET\<close> is 2), one
  plain on port 11210 and one over TLS on port 11207, and a frame of five bytes.
\<close>

definition example_plain :: MemcachedConnection where
  "example_plain =
     \<lparr>host = [], port = 11210, family = 2, ssl = False, protocol = Memcached,
      sock = None, synchronous = True, saslMechanisms = []\<rparr>"

definition example_tls :: MemcachedConnection where
  "example_tls =
     \<lparr>host = [], port = 11207, family = 2, ssl = True, protocol = Memcached,
      sock = None, synchronous = True, saslMechanisms = []\<rparr>"

definition example_map :: ConnectionMap where
  "example_map = \<lparr>connections = [example_plain, example_tls]\<rparr>"

definition example_frame :: Frame where
  "example_frame = \<lparr>payload = [1, 2, 3, 4, 5]\<rparr>"

section \<open>Properties\<close>

subsection \<open>Frame\<close>

lemma length_resize: "length (resize n xs) = n"
  by (simp add: resize_def)

text \<open>
  Claim C3. For every frame, whatever its payload was, \<open>reset()\<close> leaves the frame with
  a payload of size 0.
\<close>

theorem reset_size_zero: "length (payload (reset f)) = 0"
  by (simp add: reset_def length_resize)

subsection \<open>The default implementations of the base class\<close>

text \<open>
  Claim C1 says that \<open>setSynchronous(false)\<close> of the base class fails. The code does
  not: for every connection the call returns normally, raises nothing and leaves every
  member, the synchronous flag included, as it was. The exception object that the body
  constructs is never thrown.
\<close>

theorem setSynchronous_false_returns:
  "setSynchronous False c = (Inr (), c) \<and>
   isSynchronous (snd (setSynchronous False c)) = isSynchronous c"
  by (simp add: setSynchronous_def)

text \<open>
  Claim C4. For every key and every value, the default \<open>ioctl_get\<close> and \<open>ioctl_set\<close>
  fail: they throw a \<open>std::invalid_argument\<close> and return nothing, on every connection,
  and leave the connection as it was.
\<close>

theorem ioctl_default_invalid_argument:
  "ioctl_get key c = (Inl (Exn std_invalid_argument ''Not implemented''), c) \<and>
   ioctl_set key val c = (Inl (Exn std_invalid_argument ''Not implemented''), c) \<and>
   (\<exists>e. fst (ioctl_get key c) = Inl e \<and> thrown_class e = std_invalid_argument) \<and>
   (\<exists>e. fst (ioctl_set key val c) = Inl e \<and> thrown_class e = std_invalid_argument)"
  by (simp add: ioctl_get_def ioctl_set_def)

subsection \<open>Partial sends\<close>

text \<open>
  Claim C2. For every frame \<open>F\<close> and every length \<open>len\<close> that does not exceed the size of
  \<open>F\<close>: a successful \<open>sendPartialFrame(F, len)\<close> appends exactly the \<open>len\<close> leading bytes
  of \<open>F\<close> to what the transport has carried, and leaves in \<open>F\<close> exactly
  \<open>size(F) - len\<close> bytes, the original trailing bytes, so that the sent bytes followed by
  the remainder are the original payload. The call does succeed whenever the connection
  has a transport.
\<close>

theorem sendPartialFrame_keeps_remainder:
  assumes "len \<le> length (payload F)"
  shows "(\<forall>F' c'. sendPartialFrame F len c = (Inr F', c') \<longrightarrow>
            (\<exists>wire. sock c = Some wire \<and> sock c' = Some (wire @ take len (payload F))) \<and>
            length (take len (payload F)) = len \<and>
            length (payload F') = length (payload F) - len \<and>
            payload F' = drop len (payload F) \<and>
            take len (payload F) @ payload F' = payload F) \<and>
         (sock c \<noteq> None \<longrightarrow> (\<exists>F' c'. sendPartialFrame F len c = (Inr F', c')))"
  using assms
  by (auto simp: sendPartialFrame_def sendFrame_def split: option.splits)

theorem sendPartialFrame_keeps_remainder_witness:
  "(2::nat) \<le> length (payload example_frame) \<and>
   sendPartialFrame example_frame 2 (example_plain\<lparr>sock := Some [9]\<rparr>) =
     (Inr \<lparr>payload = [3, 4, 5]\<rparr>, example_plain\<lparr>sock := Some [9, 1, 2]\<rparr>) \<and>
   length (payload \<lparr>payload = [3, 4, 5 :: uint8_t]\<rparr>) = length (payload example_frame) - 2"
proof -
  have h: "(2::nat) \<le> length (payload example_frame)"
    by (simp add: example_frame_def)
  show ?thesis
    using sendPartialFrame_keeps_remainder [OF h, of "example_plain\<lparr>sock := Some [9]\<rparr>"]
    by (simp add: sendPartialFrame_def sendFrame_def example_frame_def)
qed

subsection \<open>Lookup in the connection map\<close>

lemma getConnection_Inr:
  "getConnection pr s f p m = Inr c \<Longrightarrow> c \<in> set (connections m) \<and> matches pr s f p c"
  by (auto simp: getConnection_def find_Some_iff split: option.splits)

lemma getConnection_Inl:
  "getConnection pr s f p m = Inl e \<Longrightarrow>
   thrown_class e = std_runtime_error \<and> (\<forall>c \<in> set (connections m). \<not> matches pr s f p c)"
  by (auto simp: getConnection_def find_None_iff split: option.splits)

text \<open>
  Claim C7. For every connection map, an initialized one in particular: with port 0 a
  connection that \<open>getConnection\<close> returns is a held connection whose protocol, TLS flag
  and address family are the requested ones; with an explicit port other than 0 it is a
  held connection that agrees in all four attributes; the call returns a connection
  whenever some held connection matches, and whenever none matches it fails with a
  generic \<open>std::runtime_error\<close> and returns no connection.
\<close>

theorem getConnection_lookup:
  "(\<forall>c. getConnection pr s f 0 m = Inr c \<longrightarrow>
        c \<in> set (connections m) \<and> getProtocol c = pr \<and> isSsl c = s \<and> getFamily c = f) \<and>
   (\<forall>c. p \<noteq> 0 \<and> getConnection pr s f p m = Inr c \<longrightarrow>
        c \<in> set (connections m) \<and> getProtocol c = pr \<and> isSsl c = s \<and> getFamily c = f \<and>
        getPort c = p) \<and>
   ((\<exists>c \<in> set (connections m). matches pr s f p c) \<longrightarrow>
        (\<exists>c. getConnection pr s f p m = Inr c)) \<and>
   ((\<forall>c \<in> set (connections m). \<not> matches pr s f p c) \<longrightarrow>
        (\<exists>e. getConnection pr s f p m = Inl e \<and> thrown_class e = std_runtime_error))"
proof (intro conjI allI impI)
  fix c assume "getConnection pr s f 0 m = Inr c"
  from getConnection_Inr [OF this]
  show "c \<in> set (connections m)" "getProtocol c = pr" "isSsl c = s" "getFamily c = f"
    by (simp_all add: matches_def)
next
  fix c assume "p \<noteq> 0 \<and> getConnection pr s f p m = Inr c"
  then have "p \<noteq> 0" and "c \<in> set (connections m) \<and> matches pr s f p c"
    using getConnection_Inr by blast+
  then show "c \<in> set (connections m)" "getProtocol c = pr" "isSsl c = s" "getFamily c = f"
    "getPort c = p"
    by (simp_all add: matches_def)
next
  assume "\<exists>c \<in> set (connections m). matches pr s f p c"
  then show "\<exists>c. getConnection pr s f p m = Inr c"
    by (cases "getConnection pr s f p m") (auto dest: getConnection_Inl)
next
  assume "\<forall>c \<in> set (connections m). \<not> matches pr s f p c"
  then show "\<exists>e. getConnection pr s f p m = Inl e \<and> thrown_class e = std_runtime_error"
    by (cases "getConnection pr s f p m") (auto dest: getConnection_Inl getConnection_Inr)
qed

theorem getConnection_lookup_witness:
  "getConnection Memcached True 2 0 example_map = Inr example_tls \<and>
   getConnection Memcached False 2 11210 example_map = Inr example_plain \<and>
   isSsl example_tls \<and> getPort example_plain = 11210 \<and>
   (\<exists>e. getConnection Greenstack False 2 11210 example_map = Inl e \<and>
      thrown_class e = std_runtime_error)"
  using getConnection_lookup [of Memcached True 2 example_map 0]
    getConnection_lookup [of Memcached False 2 example_map 11210]
    getConnection_lookup [of Greenstack False 2 example_map 11210]
  by (simp add: getConnection_def matches_def example_map_def example_plain_def
      example_tls_def getProtocol_def isSsl_def getFamily_def getPort_def)

subsection \<open>The exception hierarchy\<close>

lemma self_in_bases: "c \<in> set (bases c)"
  by (cases c) simp_all

lemma derives_from_refl: "derives_from c c"
  by (simp add: derives_from_def self_in_bases)

lemma bases_of_ConnectionError:
  "ConnectionError \<in> set (bases c) \<Longrightarrow> std_runtime_error \<in> set (bases c)"
proof (induction c)
  case StdException
  then show ?case by (simp add: ConnectionError_def)
next
  case (Derived name base)
  show ?case
  proof (cases "Derived name base = ConnectionError")
    case True
    then have "base = std_runtime_error" by (simp add: ConnectionError_def)
    then show ?thesis by (simp add: self_in_bases)
  next
    case False
    with Derived.prems have "ConnectionError \<in> set (bases base)" by auto
    then show ?thesis using Derived.IH by simp
  qed
qed

lemma runtime_error_not_ConnectionError: "\<not> derives_from std_runtime_error ConnectionError"
  by (simp add: derives_from_def std_runtime_error_def ConnectionError_def)

text \<open>
  Claim C10. Every thrown object whose class is \<open>ConnectionError\<close> or derives from it is
  a \<open>std::runtime_error\<close> as well, so a handler for \<open>std::runtime_error\<close> catches it:
  the two classes are not disjoint. In a try block whose handler for
  \<open>std::runtime_error\<close> is written first, that handler is entered and the one for
  \<open>ConnectionError\<close> never is; with the handler for \<open>ConnectionError\<close> first, a
  ConnectionError enters the first handler and a plain \<open>std::runtime_error\<close> the second,
  which is the only order that tells them apart.
\<close>

theorem ConnectionError_is_runtime_error:
  assumes "derives_from c ConnectionError"
  shows "derives_from c std_runtime_error \<and>
         first_handler [std_runtime_error, ConnectionError] c = Some 0 \<and>
         first_handler [ConnectionError, std_runtime_error] c = Some 0 \<and>
         first_handler [ConnectionError, std_runtime_error] std_runtime_error = Some 1"
proof -
  from assms have r: "derives_from c std_runtime_error"
    by (simp add: derives_from_def bases_of_ConnectionError)
  show ?thesis
    using assms r by (simp add: runtime_error_not_ConnectionError derives_from_refl)
qed

theorem ConnectionError_is_runtime_error_witness:
  "derives_from (Derived ''ProtocolError'' ConnectionError) ConnectionError \<and>
   derives_from (Derived ''ProtocolError'' ConnectionError) std_runtime_error \<and>
   first_handler [std_runtime_error, ConnectionError]
     (Derived ''ProtocolError'' ConnectionError) = Some 0"
proof -
  have h: "derives_from (Derived ''ProtocolError'' ConnectionError) ConnectionError"
    by (simp add: derives_from_def ConnectionError_def)
  from ConnectionError_is_runtime_error [OF h] h show ?thesis by simp
qed

end
